theory Spec2Isabelle
  imports Complex_Main
begin

section \<open>utils/error\_handler.py: error taxonomy and the retry decorator\<close>

text \<open>
  The keys of the dictionary \<open>ERROR_MESSAGES\<close> and the text stored under each.
\<close>

datatype msg_key =
    RATE_LIMIT | INVALID_REQUEST | API_ERROR | TIMEOUT | CONTENT_FILTER
  | RETRY_FAILED | PERFORMANCE_DEGRADED | RESOURCE_EXHAUSTED

fun ERROR_MESSAGES :: "msg_key \<Rightarrow> string" where
  "ERROR_MESSAGES RATE_LIMIT = ''API rate limit exceeded. Please try again later.''"
| "ERROR_MESSAGES INVALID_REQUEST = ''Invalid request parameters provided.''"
| "ERROR_MESSAGES API_ERROR = ''External API error occurred.''"
| "ERROR_MESSAGES TIMEOUT = ''Request timed out. Please try again.''"
| "ERROR_MESSAGES CONTENT_FILTER = ''Content violates safety guidelines.''"
| "ERROR_MESSAGES RETRY_FAILED = ''Maximum retry attempts exceeded.''"
| "ERROR_MESSAGES PERFORMANCE_DEGRADED = ''Service performance degraded.''"
| "ERROR_MESSAGES RESOURCE_EXHAUSTED = ''AI resource quota exhausted.''"

definition RETRY_DELAY :: rat where "RETRY_DELAY = 3 / 2"

text \<open>
  The exception classes the module names, one constructor each, and \<open>OtherError\<close> for
  every other class, with its name and the list of its superclasses (which may hold
  named classes: a subclass of \<open>RateLimitError\<close> is \<open>OtherError\<close> with
  \<open>OpenAI_RateLimitError\<close> in that list). The named classes are taken as the provider
  libraries' declarations give them, side by side.
\<close>

datatype exc_class =
    OpenAI_RateLimitError
  | OpenAI_ServiceUnavailableError
  | OpenAI_APIConnectionError
  | OpenAI_InvalidRequestError
  | OpenAI_APIError
  | OpenAI_Timeout
  | OpenAI_ContentFilterError
  | Stability_RateLimitError
  | Stability_InvalidRequestError
  | Stability_ServerError
  | Stability_ResourceExhaustedError
  | OtherError string "exc_class list"

text \<open>Values stored in a \<open>details\<close> dictionary.\<close>

datatype detail = DStr string | DInt int | DRat rat | DStrs "string list"

text \<open>
  \<open>AIServiceError\<close>: the message, the details dictionary (in insertion order) and the
  request identifier. The timestamp and the performance metrics are read from the clock
  when the exception is built and are not part of the model.
\<close>

record ai_service_error =
  message :: string
  details :: "(string \<times> detail) list"
  request_id :: string

text \<open>
  An exception value: one raised by a provider (its class and its \<open>str\<close>), or an
  \<open>AIServiceError\<close>.
\<close>

datatype exn = UpstreamError exc_class string | ServiceError ai_service_error

fun str_exn :: "exn \<Rightarrow> string" where
  "str_exn (UpstreamError c s) = s"
| "str_exn (ServiceError e) = message e"

fun str_last_exception :: "exn option \<Rightarrow> string" where
  "str_last_exception None = ''None''"
| "str_last_exception (Some e) = str_exn e"

definition retryable_errors :: "exc_class list" where
  "retryable_errors =
     [OpenAI_RateLimitError, OpenAI_ServiceUnavailableError, OpenAI_APIConnectionError,
      Stability_RateLimitError, Stability_ServerError]"

text \<open>
  \<open>isinstance(error, classes)\<close> for an exception of class \<open>c\<close>: one of the classes is
  \<open>c\<close> itself or one of its superclasses. A dictionary lookup by \<open>type(error)\<close>, by
  contrast, sees \<open>c\<close> alone.
\<close>

fun superclasses :: "exc_class \<Rightarrow> exc_class list" where
  "superclasses (OtherError name supers) = supers"
| "superclasses c = []"

definition isinstance :: "exc_class \<Rightarrow> exc_class list \<Rightarrow> bool" where
  "isinstance c classes = list_ex (\<lambda>k. c = k \<or> k \<in> set (superclasses c)) classes"

fun is_retryable_error :: "exn \<Rightarrow> bool" where
  "is_retryable_error (UpstreamError c s) = isinstance c retryable_errors"
| "is_retryable_error (ServiceError e) = False"

text \<open>
  What the wrapper built by \<open>retry\<close> does, in order: a call of the wrapped function
  (with the zero-based attempt index) or a \<open>time.sleep\<close> (with its duration in
  seconds). Log lines are not recorded.
\<close>

datatype event = Call nat | Sleep rat

text \<open>
  The wrapped function is given by the outcome of each of its calls: \<open>func k\<close> is what
  the call made at attempt \<open>k\<close> does, \<open>Inl e\<close> when it raises \<open>e\<close> and \<open>Inr v\<close> when it
  returns \<open>v\<close>. \<open>retry_loop func delay rid attempt n last_exception\<close> runs the
  remaining \<open>n\<close> iterations of \<open>for attempt in range(max_attempts)\<close> and the
  statement after the loop; \<open>rid\<close> is the string \<open>uuid.uuid4()\<close> yields.
\<close>

fun retry_loop ::
  "(nat \<Rightarrow> exn + 'a) \<Rightarrow> rat \<Rightarrow> string \<Rightarrow> nat \<Rightarrow> nat \<Rightarrow> exn option \<Rightarrow> event list \<times> (exn + 'a)"
where
  "retry_loop func delay rid attempt 0 last_exception =
     ([], Inl (ServiceError
        \<lparr>message = ERROR_MESSAGES RETRY_FAILED,
         details = [(''original_error'', DStr (str_last_exception last_exception))],
         request_id = rid\<rparr>))"
| "retry_loop func delay rid attempt (Suc n) last_exception =
     (case func attempt of
        Inr v \<Rightarrow> ([Call attempt], Inr v)
      | Inl e \<Rightarrow>
          if \<not> is_retryable_error e then ([Call attempt], Inl e)
          else
            (let wait_time = delay * 2 ^ attempt;
                 (tr, r) = retry_loop func delay rid (Suc attempt) n (Some e)
             in (Call attempt # Sleep wait_time # tr, r)))"

definition retry ::
  "int \<Rightarrow> rat \<Rightarrow> string \<Rightarrow> (nat \<Rightarrow> exn + 'a) \<Rightarrow> event list \<times> (exn + 'a)"
where
  "retry max_attempts delay rid func = retry_loop func delay rid 0 (nat max_attempts) None"









text \<open>
  The events of \<open>k\<close> failed attempts that were retried, starting at attempt \<open>a\<close>: each
  call is followed by its backoff sleep.
\<close>

fun backoff :: "rat \<Rightarrow> nat \<Rightarrow> nat \<Rightarrow> event list" where
  "backoff delay a 0 = []"
| "backoff delay a (Suc k) = Call a # Sleep (delay * 2 ^ a) # backoff delay (Suc a) k"

text \<open>An outcome that ends the loop at once: a return, or a fault that is not retryable.\<close>

fun ends_loop :: "exn + 'a \<Rightarrow> bool" where
  "ends_loop (Inr v) = True"
| "ends_loop (Inl e) = (\<not> is_retryable_error e)"

section \<open>Strings\<close>

text \<open>
  A Python \<open>str\<close> is a list of characters and \<open>len\<close> is \<open>length\<close>; a \<open>char\<close> is
  the code point of the same number, U+0000 to U+00FF. The tables of the Unicode
  database that the code consults are written out for these code points: category \<open>C\<close>
  (\<open>unicodedata.category(c)[0] == 'C'\<close>) is the controls U+0000 to U+001F and U+007F
  to U+009F and the soft hyphen U+00AD; the white space of \<open>str.split\<close>, \<open>str.strip\<close>
  and \<open>str.isspace\<close> is U+0009 to U+000D, U+001C to U+0020, U+0085 and U+00A0; and
  \<open>str.lower\<close> adds 32 to A to Z, to U+00C0 to U+00D6 and to U+00D8 to U+00DE. The
  normalisation \<open>unicodedata.normalize('NFKC', _)\<close> maps strings to strings and has
  no such table; the functions that call it take it as the argument \<open>nfkc\<close>.
\<close>

definition is_control :: "char \<Rightarrow> bool" where
  "is_control c =
     ((of_char c :: nat) < 32 \<or>
      (127 \<le> (of_char c :: nat) \<and> (of_char c :: nat) \<le> 159) \<or>
      (of_char c :: nat) = 173)"

definition is_space :: "char \<Rightarrow> bool" where
  "is_space c =
     ((9 \<le> (of_char c :: nat) \<and> (of_char c :: nat) \<le> 13) \<or>
      (28 \<le> (of_char c :: nat) \<and> (of_char c :: nat) \<le> 32) \<or>
      (of_char c :: nat) = 133 \<or> (of_char c :: nat) = 160)"

definition lower_char :: "char \<Rightarrow> char" where
  "lower_char c =
     (if (65 \<le> (of_char c :: nat) \<and> (of_char c :: nat) \<le> 90) \<or>
         (192 \<le> (of_char c :: nat) \<and> (of_char c :: nat) \<le> 214) \<or>
         (216 \<le> (of_char c :: nat) \<and> (of_char c :: nat) \<le> 222)
      then char_of ((of_char c :: nat) + 32) else c)"

definition lower :: "string \<Rightarrow> string" where
  "lower s = map lower_char s"

text \<open>\<open>s.split()\<close>: the maximal runs of characters that are not white space.\<close>

fun split_from :: "string \<Rightarrow> string \<Rightarrow> string list" where
  "split_from cur [] = (if cur = [] then [] else [cur])"
| "split_from cur (c # cs) =
     (if is_space c then (if cur = [] then split_from [] cs else cur # split_from [] cs)
      else split_from (cur @ [c]) cs)"

definition split :: "string \<Rightarrow> string list" where
  "split s = split_from [] s"

text \<open>\<open>' '.join(ws)\<close>.\<close>

fun join_spaces :: "string list \<Rightarrow> string" where
  "join_spaces [] = []"
| "join_spaces [w] = w"
| "join_spaces (w # ws) = w @ CHR '' '' # join_spaces ws"

definition strip :: "string \<Rightarrow> string" where
  "strip s = rev (dropWhile is_space (rev (dropWhile is_space s)))"

text \<open>\<open>s.replace(c, rep)\<close> for a one-character \<open>c\<close>.\<close>

definition replace_char :: "char \<Rightarrow> string \<Rightarrow> string \<Rightarrow> string" where
  "replace_char c rep s = concat (map (\<lambda>x. if x = c then rep else [x]) s)"

text \<open>\<open>str(n)\<close> for a natural number: its decimal digits.\<close>

function str_nat :: "nat \<Rightarrow> string" where
  "str_nat n = (if n < 10 then [char_of (48 + n)] else str_nat (n div 10) @ [char_of (48 + n mod 10)])"
  by pat_completeness auto
termination
  by (relation "measure (\<lambda>n. n)") auto

declare str_nat.simps [simp del]

text \<open>\<open>needle in hay\<close>: the needle occurs as a contiguous run.\<close>

fun starts_with :: "string \<Rightarrow> string \<Rightarrow> bool" where
  "starts_with [] s = True"
| "starts_with (p # ps) [] = False"
| "starts_with (p # ps) (c # cs) = (p = c \<and> starts_with ps cs)"

fun str_contains :: "string \<Rightarrow> string \<Rightarrow> bool" where
  "str_contains needle [] = (needle = [])"
| "str_contains needle (c # cs) = (starts_with needle (c # cs) \<or> str_contains needle cs)"

text \<open>
  \<open>re.compile\<close>. Of its checks the model has the one on escapes: a backslash followed
  by an ASCII letter that is no escape the \<open>re\<close> module knows raises
  \<open>re.error('bad escape \x', pos)\<close>, with the position of the backslash; so does a
  backslash that ends the pattern. Inside a character class the known letters are those
  of \<open>class_escapes\<close>, elsewhere those of \<open>pattern_escapes\<close>; a class opens at \<open>[\<close>
  and ends at the next \<open>]\<close>. A pattern that passes is kept as its source text, and
  matching against it is left to the engine.
\<close>

datatype re_error = BadEscape char nat | BadEscapeEnd nat

definition is_ascii_letter :: "char \<Rightarrow> bool" where
  "is_ascii_letter c =
     ((65 \<le> (of_char c :: nat) \<and> (of_char c :: nat) \<le> 90) \<or>
      (97 \<le> (of_char c :: nat) \<and> (of_char c :: nat) \<le> 122))"

definition class_escapes :: "char list" where
  "class_escapes = ''abfnrtvdDsSwWxuUN''"

definition pattern_escapes :: "char list" where
  "pattern_escapes = ''abfnrtvABdDsSwWZxuUN''"

fun scan_escapes :: "bool \<Rightarrow> nat \<Rightarrow> string \<Rightarrow> re_error option" where
  "scan_escapes in_class pos [] = None"
| "scan_escapes in_class pos [c] = (if c = CHR 0x5C then Some (BadEscapeEnd pos) else None)"
| "scan_escapes in_class pos (c # d # cs) =
     (if c = CHR 0x5C then
        (if is_ascii_letter d \<and> d \<notin> set (if in_class then class_escapes else pattern_escapes)
         then Some (BadEscape d pos)
         else scan_escapes in_class (pos + 2) cs)
      else
        scan_escapes (if c = CHR ''['' then True else if c = CHR '']'' then False else in_class)
          (Suc pos) (d # cs))"

definition re_compile :: "string \<Rightarrow> re_error + string" where
  "re_compile p = (case scan_escapes False 0 p of Some e \<Rightarrow> Inl e | None \<Rightarrow> Inr p)"

text \<open>
  The patterns of the content-safety check have the shape \<open>(?i)(a|b|c)\<close> and are used
  with \<open>search\<close>: one of the alternatives occurs somewhere in the text, letters
  compared without regard to case. The record keeps the source text of
  the pattern (\<open>pattern.pattern\<close>) beside its alternatives.
\<close>

record alt_pattern =
  pattern :: string
  alternatives :: "string list"

definition search :: "alt_pattern \<Rightarrow> string \<Rightarrow> bool" where
  "search p s = list_ex (\<lambda>a. str_contains (lower a) (lower s)) (alternatives p)"

section \<open>utils/validators.py: the content-safety check\<close>

definition NSFW_KEYWORDS :: "string list" where
  "NSFW_KEYWORDS = []"

definition UNSAFE_PATTERNS :: "alt_pattern list" where
  "UNSAFE_PATTERNS =
     [\<lparr>pattern = ''(?i)(violence|weapon|drug)'',
       alternatives = [''violence'', ''weapon'', ''drug'']\<rparr>,
      \<lparr>pattern = ''(?i)(explicit|mature|adult)'',
       alternatives = [''explicit'', ''mature'', ''adult'']\<rparr>]"

definition AGE_INAPPROPRIATE_CONTENT :: "alt_pattern list" where
  "AGE_INAPPROPRIATE_CONTENT =
     [\<lparr>pattern = ''(?i)(fear|horror|scary)'',
       alternatives = [''fear'', ''horror'', ''scary'']\<rparr>,
      \<lparr>pattern = ''(?i)(complex|advanced|difficult)'',
       alternatives = [''complex'', ''advanced'', ''difficult'']\<rparr>]"

record validation_result =
  is_valid :: bool
  vr_message :: string
  vr_details :: "(string \<times> string) list option"

definition normalize_text :: "(string \<Rightarrow> string) \<Rightarrow> string \<Rightarrow> string" where
  "normalize_text nfkc text = nfkc text"

text \<open>
  \<open>_check_content_safety\<close> with the three module-level lists as arguments; each
  \<open>for\<close> loop returns at the first entry that matches, which is what \<open>find\<close> yields.
\<close>

definition check_content_safety_with ::
  "string list \<Rightarrow> alt_pattern list \<Rightarrow> alt_pattern list \<Rightarrow> (string \<Rightarrow> string) \<Rightarrow> string
     \<Rightarrow> validation_result"
where
  "check_content_safety_with keywords unsafe_patterns age_patterns nfkc text =
     (let normalized_text = normalize_text nfkc (lower text) in
      case find (\<lambda>keyword. str_contains keyword normalized_text) keywords of
        Some keyword \<Rightarrow>
          \<lparr>is_valid = False, vr_message = ''Content contains inappropriate keywords'',
           vr_details = Some [(''keyword'', keyword)]\<rparr>
      | None \<Rightarrow>
         (case find (\<lambda>p. search p normalized_text) unsafe_patterns of
            Some p \<Rightarrow>
              \<lparr>is_valid = False, vr_message = ''Content contains unsafe patterns'',
               vr_details = Some [(''pattern'', pattern p)]\<rparr>
          | None \<Rightarrow>
             (case find (\<lambda>p. search p normalized_text) age_patterns of
                Some p \<Rightarrow>
                  \<lparr>is_valid = False,
                   vr_message = ''Content not suitable for target age group'',
                   vr_details = Some [(''pattern'', pattern p)]\<rparr>
              | None \<Rightarrow>
                  \<lparr>is_valid = True, vr_message = ''Content passed safety checks'',
                   vr_details = None\<rparr>)))"

definition check_content_safety :: "(string \<Rightarrow> string) \<Rightarrow> string \<Rightarrow> validation_result" where
  "check_content_safety =
     check_content_safety_with NSFW_KEYWORDS UNSAFE_PATTERNS AGE_INAPPROPRIATE_CONTENT"

section \<open>models/story\_request.py\<close>

definition SUPPORTED_THEMES :: "string list" where
  "SUPPORTED_THEMES =
     [''Magical'', ''Adventure'', ''Educational'', ''Fantasy'',
      ''Nature'', ''Science'', ''Space'', ''Ocean'',
      ''Friendship'', ''Family'']"

definition MAX_CHARACTER_NAME_LENGTH :: nat where "MAX_CHARACTER_NAME_LENGTH = 50"
definition MIN_AGE :: int where "MIN_AGE = 3"
definition MAX_AGE :: int where "MAX_AGE = 12"
definition MAX_INTERESTS :: nat where "MAX_INTERESTS = 5"
definition MAX_ADDITIONAL_NOTES_LENGTH :: nat where "MAX_ADDITIONAL_NOTES_LENGTH = 500"

text \<open>
  The two patterns are compiled by module-level statements, which run when the module
  is imported: \<open>NAME_PATTERN\<close> and \<open>INTEREST_PATTERN\<close> are what \<open>re.compile\<close>
  makes of the source texts \<open>^[\p{L}\s-]{1,50}$\<close> and \<open>^[\p{L}\s-]{1,30}$\<close>.
\<close>

definition NAME_PATTERN_source :: string where
  "NAME_PATTERN_source = ''^['' @ [CHR 0x5C] @ ''p{L}'' @ [CHR 0x5C] @ ''s-]{1,50}$''"

definition INTEREST_PATTERN_source :: string where
  "INTEREST_PATTERN_source = ''^['' @ [CHR 0x5C] @ ''p{L}'' @ [CHR 0x5C] @ ''s-]{1,30}$''"

definition NAME_PATTERN :: "re_error + string" where
  "NAME_PATTERN = re_compile NAME_PATTERN_source"

definition INTEREST_PATTERN :: "re_error + string" where
  "INTEREST_PATTERN = re_compile INTEREST_PATTERN_source"

text \<open>
  Importing the module: the statements run in order, and an exception raised by one of
  them leaves the import, so that the class \<open>StoryRequest\<close> is never defined. When both
  patterns compile, the import yields them.
\<close>

definition import_story_request :: "re_error + string \<times> string" where
  "import_story_request =
     (case NAME_PATTERN of
        Inl e \<Rightarrow> Inl e
      | Inr name_pattern \<Rightarrow>
         (case INTEREST_PATTERN of
            Inl e \<Rightarrow> Inl e
          | Inr interest_pattern \<Rightarrow> Inr (name_pattern, interest_pattern)))"

text \<open>
  The dataclass, its fields typed as declared (\<open>str\<close>, \<open>int\<close>, \<open>List[str]\<close>,
  \<open>Optional[str]\<close>); the \<open>isinstance\<close> guards of the source always pass on such values
  and have no branch here.
\<close>

record story_request =
  character_name :: string
  age :: int
  theme :: string
  interests :: "string list"
  additional_notes :: "string option"

definition sanitize_input :: "(string \<Rightarrow> string) \<Rightarrow> string \<Rightarrow> string" where
  "sanitize_input nfkc input_string =
     (let normalized = nfkc input_string;
          sanitized = filter (\<lambda>char. \<not> is_control char) normalized
      in join_spaces (split sanitized))"

text \<open>
  Each check returns the error it raises, or the object as the check leaves it (only
  \<open>validate_interests\<close> changes it). The checks that use a pattern take the compiled
  pattern and the engine: \<open>re_match p s\<close> says whether \<open>p.match(s)\<close> finds a match.
\<close>

definition validate_character_name ::
  "(string \<Rightarrow> string \<Rightarrow> bool) \<Rightarrow> string \<Rightarrow> story_request \<Rightarrow> ai_service_error + story_request"
where
  "validate_character_name re_match name_pattern r =
     (if character_name r = [] then
        Inl \<lparr>message = ''Character name is required'',
             details = [(''field'', DStr ''character_name'')],
             request_id = ''validate_name''\<rparr>
      else if \<not> re_match name_pattern (character_name r) then
        Inl \<lparr>message = ''Character name must contain only letters, spaces, and hyphens'',
             details = [(''field'', DStr ''character_name''), (''value'', DStr (character_name r))],
             request_id = ''validate_name''\<rparr>
      else if length (character_name r) > MAX_CHARACTER_NAME_LENGTH then
        Inl \<lparr>message = ''Character name must not exceed 50 characters'',
             details = [(''field'', DStr ''character_name''),
                        (''length'', DInt (int (length (character_name r))))],
             request_id = ''validate_name''\<rparr>
      else Inr r)"

definition validate_age :: "story_request \<Rightarrow> ai_service_error + story_request" where
  "validate_age r =
     (if \<not> (MIN_AGE \<le> age r \<and> age r \<le> MAX_AGE) then
        Inl \<lparr>message = ''Age must be between 3 and 12 years'',
             details = [(''field'', DStr ''age''), (''value'', DInt (age r))],
             request_id = ''validate_age''\<rparr>
      else Inr r)"

definition validate_theme :: "story_request \<Rightarrow> ai_service_error + story_request" where
  "validate_theme r =
     (if theme r = [] then
        Inl \<lparr>message = ''Theme is required'',
             details = [(''field'', DStr ''theme'')],
             request_id = ''validate_theme''\<rparr>
      else if theme r \<notin> set SUPPORTED_THEMES then
        Inl \<lparr>message = ''Invalid theme selected'',
             details = [(''field'', DStr ''theme''), (''value'', DStr (theme r)),
                        (''supported_themes'', DStrs SUPPORTED_THEMES)],
             request_id = ''validate_theme''\<rparr>
      else Inr r)"

text \<open>
  \<open>list(dict.fromkeys(xs))\<close>: the keys of a dictionary in insertion order; a key
  already present keeps its place.
\<close>

fun fromkeys :: "'a list \<Rightarrow> 'a list \<Rightarrow> 'a list" where
  "fromkeys keys [] = keys"
| "fromkeys keys (x # xs) = (if x \<in> set keys then fromkeys keys xs else fromkeys (keys @ [x]) xs)"

definition dict_fromkeys :: "'a list \<Rightarrow> 'a list" where
  "dict_fromkeys xs = fromkeys [] xs"

definition validate_interests ::
  "(string \<Rightarrow> string \<Rightarrow> bool) \<Rightarrow> string \<Rightarrow> story_request \<Rightarrow> ai_service_error + story_request"
where
  "validate_interests re_match interest_pattern r =
     (if interests r = [] then
        Inl \<lparr>message = ''At least one interest is required'',
             details = [(''field'', DStr ''interests'')],
             request_id = ''validate_interests''\<rparr>
      else if length (interests r) > MAX_INTERESTS then
        Inl \<lparr>message = ''Maximum 5 interests allowed'',
             details = [(''field'', DStr ''interests''),
                        (''count'', DInt (int (length (interests r))))],
             request_id = ''validate_interests''\<rparr>
      else
        (case find (\<lambda>interest. \<not> re_match interest_pattern interest) (interests r) of
           Some interest \<Rightarrow>
             Inl \<lparr>message = ''Interest must contain only letters, spaces, and hyphens'',
                  details = [(''field'', DStr ''interests''), (''invalid_value'', DStr interest)],
                  request_id = ''validate_interests''\<rparr>
         | None \<Rightarrow> Inr (r\<lparr>interests := dict_fromkeys (interests r)\<rparr>)))"

definition validate_additional_notes :: "story_request \<Rightarrow> ai_service_error + story_request" where
  "validate_additional_notes r =
     (case additional_notes r of
        None \<Rightarrow> Inr r
      | Some notes \<Rightarrow>
          if length notes > MAX_ADDITIONAL_NOTES_LENGTH then
            Inl \<lparr>message = ''Additional notes must not exceed 500 characters'',
                 details = [(''field'', DStr ''additional_notes''),
                            (''length'', DInt (int (length notes)))],
                 request_id = ''validate_notes''\<rparr>
          else Inr r)"

text \<open>Run the next check on the object when the previous one raised nothing.\<close>

fun and_then ::
  "ai_service_error + story_request \<Rightarrow> (story_request \<Rightarrow> ai_service_error + story_request)
     \<Rightarrow> ai_service_error + story_request"
where
  "and_then (Inl e) f = Inl e"
| "and_then (Inr r) f = f r"

definition validate ::
  "(string \<Rightarrow> string \<Rightarrow> bool) \<Rightarrow> string \<Rightarrow> string \<Rightarrow> story_request
     \<Rightarrow> ai_service_error + story_request"
where
  "validate re_match name_pattern interest_pattern r =
     and_then (and_then (and_then (and_then
       (validate_character_name re_match name_pattern r)
       validate_age) validate_theme) (validate_interests re_match interest_pattern))
       validate_additional_notes"

definition post_init ::
  "(string \<Rightarrow> string \<Rightarrow> bool) \<Rightarrow> string \<Rightarrow> string \<Rightarrow> (string \<Rightarrow> string) \<Rightarrow> story_request
     \<Rightarrow> ai_service_error + story_request"
where
  "post_init re_match name_pattern interest_pattern nfkc r =
     validate re_match name_pattern interest_pattern
       (r\<lparr>character_name := sanitize_input nfkc (character_name r),
          theme := sanitize_input nfkc (theme r),
          interests := map (sanitize_input nfkc) (interests r),
          additional_notes :=
            (case additional_notes r of
               None \<Rightarrow> None
             | Some notes \<Rightarrow> if notes = [] then Some notes else Some (sanitize_input nfkc notes))\<rparr>)"

text \<open>
  What a caller that imports the module and constructs a \<open>StoryRequest\<close> gets: the
  \<open>re.error\<close> of the import, or the \<open>AIServiceError\<close> of a check, or the object. The
  generated \<open>__init__\<close> stores the arguments and calls \<open>__post_init__\<close>; the caller
  receives the object only when that returns.
\<close>

datatype story_raised = ReError re_error | Raised ai_service_error

definition StoryRequest ::
  "(string \<Rightarrow> string \<Rightarrow> bool) \<Rightarrow> (string \<Rightarrow> string) \<Rightarrow> string \<Rightarrow> int \<Rightarrow> string \<Rightarrow> string list
     \<Rightarrow> string option \<Rightarrow> story_raised + story_request"
where
  "StoryRequest re_match nfkc cn a t is notes =
     (case import_story_request of
        Inl e \<Rightarrow> Inl (ReError e)
      | Inr (name_pattern, interest_pattern) \<Rightarrow>
         (case post_init re_match name_pattern interest_pattern nfkc
                 \<lparr>character_name = cn, age = a, theme = t, interests = is,
                  additional_notes = notes\<rparr> of
            Inl e \<Rightarrow> Inl (Raised e)
          | Inr r \<Rightarrow> Inr r))"

definition to_dict :: "story_request \<Rightarrow> (string \<times> detail) list" where
  "to_dict r =
     [(''character_name'', DStr (character_name r)),
      (''age'', DInt (age r)),
      (''theme'', DStr (theme r)),
      (''interests'', DStrs (interests r))] @
     (case additional_notes r of
        None \<Rightarrow> []
      | Some notes \<Rightarrow> if notes = [] then [] else [(''additional_notes'', DStr notes)])"

text \<open>The position at which a value first occurs in a list.\<close>

fun first_index :: "'a list \<Rightarrow> 'a \<Rightarrow> nat" where
  "first_index [] a = 0"
| "first_index (x # xs) a = (if x = a then 0 else Suc (first_index xs a))"

section \<open>models/illustration\_request.py\<close>

definition SUPPORTED_STYLES :: "string list" where
  "SUPPORTED_STYLES =
     [''children's book'', ''watercolor'', ''digital art'', ''cartoon'', ''realistic'']"

definition MAX_PROMPT_LENGTH :: nat where "MAX_PROMPT_LENGTH = 1000"
definition MIN_PROMPT_LENGTH :: nat where "MIN_PROMPT_LENGTH = 10"
definition DEFAULT_SIZE :: "int \<times> int" where "DEFAULT_SIZE = (512, 512)"
definition MIN_IMAGE_DIMENSION :: int where "MIN_IMAGE_DIMENSION = 256"
definition MAX_IMAGE_DIMENSION :: int where "MAX_IMAGE_DIMENSION = 1024"

text \<open>The characters of the class \<open>UNSAFE_PATTERN\<close>.\<close>

definition UNSAFE_PATTERN :: "char list" where
  "UNSAFE_PATTERN = [CHR ''<'', CHR ''>'', CHR ''&'', CHR '';'', CHR ''{'', CHR ''}'',
                     CHR ''['', CHR '']'', CHR 0x5C]"

text \<open>
  What building an \<open>IllustrationRequest\<close> can raise: an \<open>AIServiceError\<close> from one of
  its validators, pydantic's \<open>ValidationError\<close>, or \<open>StopIteration\<close> from \<open>next\<close>.
\<close>

datatype failure = AIServiceError ai_service_error | ValidationError | StopIteration

definition sanitize_string :: "string \<Rightarrow> string" where
  "sanitize_string v =
     (let sanitized = filter (\<lambda>c. c \<notin> set UNSAFE_PATTERN) v;
          sanitized = join_spaces (split sanitized);
          sanitized =
            replace_char (CHR 0x27) ''&#x27;''
              (replace_char (CHR 0x22) ''&quot;''
                (replace_char (CHR ''>'') ''&gt;''
                  (replace_char (CHR ''<'') ''&lt;''
                    (replace_char (CHR ''&'') ''&amp;'' sanitized))))
      in strip sanitized)"

definition validate_string_length :: "string \<Rightarrow> nat \<Rightarrow> nat \<Rightarrow> failure + string" where
  "validate_string_length v min_length max_length =
     (if v = [] then
        Inl (AIServiceError
          \<lparr>message = ''Invalid string input'', details = [(''value'', DStr v)],
           request_id = ''validation_error''\<rparr>)
      else if \<not> (min_length \<le> length (strip v) \<and> length (strip v) \<le> max_length) then
        Inl (AIServiceError
          \<lparr>message = ''String length must be between '' @ str_nat min_length @ '' and '' @
                     str_nat max_length @ '' characters'',
           details = [(''value_length'', DInt (int (length (strip v))))],
           request_id = ''validation_error''\<rparr>)
      else Inr (sanitize_string (strip v)))"

text \<open>
  \<open>validate_image_dimensions\<close> on a pair of integers. The quotient \<open>width / height\<close>
  is a float in the source; it is only computed once both dimensions lie between 256
  and 1024, where the rounded quotient compares with 0.5 and 2.0 as the exact one does,
  so the model computes it in the rationals.
\<close>

definition validate_image_dimensions :: "int \<times> int \<Rightarrow> failure + int \<times> int" where
  "validate_image_dimensions dimensions =
     (let (width, height) = dimensions in
      if \<not> (MIN_IMAGE_DIMENSION \<le> width \<and> width \<le> MAX_IMAGE_DIMENSION \<and>
             MIN_IMAGE_DIMENSION \<le> height \<and> height \<le> MAX_IMAGE_DIMENSION) then
        Inl (AIServiceError
          \<lparr>message = ''Image dimensions must be between 256 and 1024 pixels'',
           details = [(''width'', DInt width), (''height'', DInt height)],
           request_id = ''validation_error''\<rparr>)
      else
        (let aspect_ratio = (of_int width / of_int height :: rat) in
         if \<not> (1 / 2 \<le> aspect_ratio \<and> aspect_ratio \<le> 2) then
           Inl (AIServiceError
             \<lparr>message = ''Image aspect ratio must be between 1:2 and 2:1'',
              details = [(''aspect_ratio'', DRat aspect_ratio)],
              request_id = ''validation_error''\<rparr>)
         else Inr (width, height)))"

record illustration_request =
  prompt :: string
  style :: string
  size :: "int \<times> int"
  enhance_faces :: bool

definition validate_prompt :: "string \<Rightarrow> failure + string" where
  "validate_prompt v = validate_string_length v MIN_PROMPT_LENGTH MAX_PROMPT_LENGTH"

definition validate_style :: "string \<Rightarrow> failure + string" where
  "validate_style v =
     (if v = [] \<or> lower v \<notin> set (map lower SUPPORTED_STYLES) then
        Inl (AIServiceError
          \<lparr>message = ''Invalid illustration style'',
           details = [(''provided_style'', DStr v), (''supported_styles'', DStrs SUPPORTED_STYLES)],
           request_id = ''validation_error''\<rparr>)
      else
        (case find (\<lambda>s. lower s = lower v) SUPPORTED_STYLES of
           Some s \<Rightarrow> Inr s
         | None \<Rightarrow> Inl StopIteration))"

definition validate_size :: "int \<times> int \<Rightarrow> failure + int \<times> int" where
  "validate_size v =
     (case validate_image_dimensions v of
        Inl e \<Rightarrow> Inl e
      | Inr dimensions \<Rightarrow>
          (let (width, height) = dimensions in
           if width mod 8 \<noteq> 0 \<or> height mod 8 \<noteq> 0 then
             Inl (AIServiceError
               \<lparr>message = ''Image dimensions must be multiples of 8'',
                details = [(''width'', DInt width), (''height'', DInt height)],
                request_id = ''validation_error''\<rparr>)
           else Inr dimensions))"

text \<open>
  The \<open>prompt\<close> field: pydantic first applies the bounds declared in \<open>Field\<close>
  to the value as given; a violation is recorded (\<open>Inr None\<close>) and reported after all
  fields have been processed. Otherwise the validator of the class runs, and an
  \<open>AIServiceError\<close> it raises leaves the constructor at once, as pydantic only
  collects \<open>ValueError\<close>, \<open>TypeError\<close> and \<open>AssertionError\<close>.
\<close>

definition prompt_field :: "string \<Rightarrow> failure + string option" where
  "prompt_field v =
     (if \<not> (MIN_PROMPT_LENGTH \<le> length v \<and> length v \<le> MAX_PROMPT_LENGTH) then Inr None
      else (case validate_prompt v of Inl e \<Rightarrow> Inl e | Inr p \<Rightarrow> Inr (Some p)))"

text \<open>
  Constructing an \<open>IllustrationRequest\<close>: the fields are processed in the order of
  their declaration; \<open>size\<close> and \<open>enhance_faces\<close> are optional, and a default is stored
  without running the validator.
\<close>

definition IllustrationRequest ::
  "string \<Rightarrow> string \<Rightarrow> (int \<times> int) option \<Rightarrow> bool option \<Rightarrow> failure + illustration_request"
where
  "IllustrationRequest p st sz ef =
     (case prompt_field p of
        Inl e \<Rightarrow> Inl e
      | Inr p' \<Rightarrow>
         (case validate_style st of
            Inl e \<Rightarrow> Inl e
          | Inr st' \<Rightarrow>
             (case (case sz of None \<Rightarrow> Inr DEFAULT_SIZE | Some v \<Rightarrow> validate_size v) of
                Inl e \<Rightarrow> Inl e
              | Inr sz' \<Rightarrow>
                 (case p' of
                    None \<Rightarrow> Inl ValidationError
                  | Some p'' \<Rightarrow>
                      Inr \<lparr>prompt = p'', style = st', size = sz',
                           enhance_faces = (case ef of None \<Rightarrow> True | Some b \<Rightarrow> b)\<rparr>))))"

section \<open>Properties of the retry decorator and the taxonomy\<close>

lemma retry_loop_ends:
  "ends_loop (func a) \<Longrightarrow> retry_loop func delay rid a (Suc n) le = ([Call a], func a)"
  by (cases "func a") simp_all

lemma retry_loop_retried:
  "\<not> ends_loop (func a) \<Longrightarrow>
   retry_loop func delay rid a (Suc n) le =
     (Call a # Sleep (delay * 2 ^ a) # fst (retry_loop func delay rid (Suc a) n (Some (projl (func a)))),
      snd (retry_loop func delay rid (Suc a) n (Some (projl (func a)))))"
  by (cases "func a") (simp_all add: case_prod_beta)

lemma retry_loop_stops:
  assumes "\<forall>j<k. \<not> ends_loop (func (a + j))" and "k < n" and "ends_loop (func (a + k))"
  shows "retry_loop func delay rid a n le = (backoff delay a k @ [Call (a + k)], func (a + k))"
  using assms
proof (induction k arbitrary: a n le)
  case 0
  then obtain m where "n = Suc m" by (cases n) auto
  with 0 show ?case by (simp add: retry_loop_ends del: retry_loop.simps)
next
  case (Suc k)
  from Suc.prems obtain m where n: "n = Suc m" and km: "k < m" by (cases n) auto
  from Suc.prems(1) have first: "\<not> ends_loop (func (a + 0))" by blast
  have later: "\<forall>j<k. \<not> ends_loop (func (Suc a + j))"
  proof (intro allI impI)
    fix j assume "j < k"
    then have "Suc j < Suc k" by simp
    with Suc.prems(1) have "\<not> ends_loop (func (a + Suc j))" by blast
    then show "\<not> ends_loop (func (Suc a + j))" by simp
  qed
  from Suc.prems(3) have stop: "ends_loop (func (Suc a + k))" by simp
  have "retry_loop func delay rid (Suc a) m (Some (projl (func a))) =
          (backoff delay (Suc a) k @ [Call (Suc a + k)], func (Suc a + k))"
    by (rule Suc.IH [OF later km stop])
  with first n show ?case by (simp add: retry_loop_retried del: retry_loop.simps)
qed

lemma retry_loop_exhausted:
  assumes "\<forall>j<n. \<not> ends_loop (func (a + j))"
  shows "retry_loop func delay rid a n le =
           (backoff delay a n,
            Inl (ServiceError
              \<lparr>message = ERROR_MESSAGES RETRY_FAILED,
               details = [(''original_error'',
                  DStr (str_last_exception (if n = 0 then le else Some (projl (func (a + n - 1))))))],
               request_id = rid\<rparr>))"
  using assms
proof (induction n arbitrary: a le)
  case 0
  show ?case by simp
next
  case (Suc n)
  from Suc.prems have first: "\<not> ends_loop (func (a + 0))" by blast
  have later: "\<forall>j<n. \<not> ends_loop (func (Suc a + j))"
  proof (intro allI impI)
    fix j assume "j < n"
    then have "Suc j < Suc n" by simp
    with Suc.prems have "\<not> ends_loop (func (a + Suc j))" by blast
    then show "\<not> ends_loop (func (Suc a + j))" by simp
  qed
  note IH = Suc.IH [OF later, of "Some (projl (func a))"]
  show ?case
  proof (cases n)
    case 0
    with first show ?thesis by (simp add: retry_loop_retried del: retry_loop.simps(2))
  next
    case (Suc m)
    with first IH show ?thesis by (simp add: retry_loop_retried del: retry_loop.simps)
  qed
qed





text \<open>
  C1. With \<open>max_attempts = 3\<close> and a function that raises a retryable fault
  (\<open>RateLimitError\<close>) at every call, the wrapper calls the function exactly three
  times and raises the \<open>RETRY_FAILED\<close> error whose \<open>original_error\<close> is the text of the
  last fault; but it sleeps after every failed call, the third included: with the default
  delay of 1.5 seconds the last event before the error is a sleep of 6 seconds, so the
  failure is not produced immediately after the final attempt.
\<close>

theorem retry_exhausted_sleeps_after_last_attempt:
  "retry 3 RETRY_DELAY ''req-1''
     (\<lambda>k. Inl (UpstreamError OpenAI_RateLimitError ''rate limited'') :: exn + unit) =
   ([Call 0, Sleep (3 / 2), Call 1, Sleep 3, Call 2, Sleep 6],
    Inl (ServiceError
      \<lparr>message = ''Maximum retry attempts exceeded.'',
       details = [(''original_error'', DStr ''rate limited'')],
       request_id = ''req-1''\<rparr>))"
  by (simp add: retry_def RETRY_DELAY_def retryable_errors_def isinstance_def numeral_3_eq_3)

text \<open>
  C2. When the first call raises a fault that is not retryable, the wrapper makes that
  one call, sleeps not at all and re-raises the fault. When the call at attempt \<open>k\<close>
  (within the allowed attempts, every earlier call having raised a retryable fault)
  returns a value, the wrapper returns that value right after that call: the only
  sleeps are the backoff sleeps of the earlier attempts.
\<close>

theorem retry_nonretryable_once_and_success_immediate:
  fixes func :: "nat \<Rightarrow> exn + 'a"
  shows "(0 < max_attempts \<and> func 0 = Inl e \<and> \<not> is_retryable_error e \<longrightarrow>
            retry max_attempts delay rid func = ([Call 0], Inl e)) \<and>
         (k < nat max_attempts \<and> (\<forall>j<k. \<exists>e'. func j = Inl e' \<and> is_retryable_error e') \<and>
          func k = Inr v \<longrightarrow>
            retry max_attempts delay rid func = (backoff delay 0 k @ [Call k], Inr v))"
proof (intro conjI impI)
  assume a: "0 < max_attempts \<and> func 0 = Inl e \<and> \<not> is_retryable_error e"
  then obtain m where "nat max_attempts = Suc m" by (cases "nat max_attempts") auto
  moreover from a have "ends_loop (func 0)" by simp
  ultimately show "retry max_attempts delay rid func = ([Call 0], Inl e)"
    using a by (simp add: retry_def retry_loop_ends del: retry_loop.simps)
next
  assume a: "k < nat max_attempts \<and> (\<forall>j<k. \<exists>e'. func j = Inl e' \<and> is_retryable_error e') \<and>
             func k = Inr v"
  have earlier: "\<forall>j<k. \<not> ends_loop (func (0 + j))"
  proof (intro allI impI)
    fix j assume "j < k"
    with a obtain e' where "func j = Inl e'" "is_retryable_error e'" by blast
    then show "\<not> ends_loop (func (0 + j))" by simp
  qed
  from a have stop: "ends_loop (func (0 + k))" by simp
  from a have "k < nat max_attempts" by simp
  from retry_loop_stops [OF earlier this stop, of delay rid None] a
  show "retry max_attempts delay rid func = (backoff delay 0 k @ [Call k], Inr v)"
    by (simp add: retry_def)
qed

theorem retry_nonretryable_once_and_success_immediate_witness:
  "retry 3 (3 / 2) ''req-2''
     (\<lambda>k. Inl (UpstreamError OpenAI_InvalidRequestError ''bad request'') :: exn + int) =
     ([Call 0], Inl (UpstreamError OpenAI_InvalidRequestError ''bad request'')) \<and>
   retry 3 (3 / 2) ''req-2''
     (\<lambda>k. if k < 2 then Inl (UpstreamError OpenAI_RateLimitError ''slow down'') else Inr (7 :: int)) =
     ([Call 0, Sleep (3 / 2), Call 1, Sleep 3, Call 2], Inr 7)"
proof -
  have nr: "\<not> is_retryable_error (UpstreamError OpenAI_InvalidRequestError ''bad request'')"
    by (simp add: retryable_errors_def isinstance_def)
  have r: "is_retryable_error (UpstreamError OpenAI_RateLimitError ''slow down'')"
    by (simp add: retryable_errors_def isinstance_def)
  have b: "backoff (3 / 2) 0 2 = [Call 0, Sleep (3 / 2), Call 1, Sleep 3]"
    by (simp add: numeral_2_eq_2)
  show ?thesis
    using nr r b
      retry_nonretryable_once_and_success_immediate
        [of 3 "\<lambda>k. Inl (UpstreamError OpenAI_InvalidRequestError ''bad request'')"
            "UpstreamError OpenAI_InvalidRequestError ''bad request''" "3 / 2" "''req-2''" 0 0]
      retry_nonretryable_once_and_success_immediate
        [of 3 "\<lambda>k. if k < 2 then Inl (UpstreamError OpenAI_RateLimitError ''slow down'') else Inr (7 :: int)"
            "UpstreamError OpenAI_RateLimitError ''slow down''" "3 / 2" "''req-2''" 2 7]
    by simp
qed





section \<open>Properties of the content-safety check\<close>

lemma find_first:
  "(\<forall>y\<in>set pre. \<not> P y) \<Longrightarrow> P x \<Longrightarrow> find P (pre @ x # post) = Some x"
  by (induction pre) simp_all

lemma find_Some_holds: "find P xs = Some x \<Longrightarrow> P x \<and> x \<in> set xs"
  by (induction xs) (auto split: if_splits)

lemma is_valid_iff_no_find:
  "is_valid (check_content_safety_with keywords unsafe age_ps nfkc text) \<longleftrightarrow>
     find (\<lambda>x. str_contains x (nfkc (lower text))) keywords = None \<and>
     find (\<lambda>x. search x (nfkc (lower text))) unsafe = None \<and>
     find (\<lambda>x. search x (nfkc (lower text))) age_ps = None"
  by (simp add: check_content_safety_with_def normalize_text_def Let_def split: option.splits)

text \<open>
  C3. The check works on the text lower-cased and then normalised. The result is valid
  exactly when no keyword occurs in that text and no pattern of either group matches it.
  Otherwise the first entry that matches, taking the keywords first, then the unsafe
  patterns, then the age patterns, each list in its order, decides the result: it is
  invalid and its details name that keyword or that pattern. In particular a keyword
  that occurs in the text makes the result invalid whatever else the text holds.
\<close>

theorem content_safety_ordered_first_match:
  "(is_valid (check_content_safety_with keywords unsafe age_ps nfkc text) \<longleftrightarrow>
      (\<forall>k\<in>set keywords. \<not> str_contains k (nfkc (lower text))) \<and>
      (\<forall>p\<in>set unsafe. \<not> search p (nfkc (lower text))) \<and>
      (\<forall>p\<in>set age_ps. \<not> search p (nfkc (lower text)))) \<and>
   (keywords = kpre @ k # kpost \<and> (\<forall>x\<in>set kpre. \<not> str_contains x (nfkc (lower text))) \<and>
    str_contains k (nfkc (lower text)) \<longrightarrow>
      check_content_safety_with keywords unsafe age_ps nfkc text =
        \<lparr>is_valid = False, vr_message = ''Content contains inappropriate keywords'',
         vr_details = Some [(''keyword'', k)]\<rparr>) \<and>
   ((\<forall>x\<in>set keywords. \<not> str_contains x (nfkc (lower text))) \<and>
    unsafe = upre @ p # upost \<and> (\<forall>x\<in>set upre. \<not> search x (nfkc (lower text))) \<and>
    search p (nfkc (lower text)) \<longrightarrow>
      check_content_safety_with keywords unsafe age_ps nfkc text =
        \<lparr>is_valid = False, vr_message = ''Content contains unsafe patterns'',
         vr_details = Some [(''pattern'', pattern p)]\<rparr>) \<and>
   ((\<forall>x\<in>set keywords. \<not> str_contains x (nfkc (lower text))) \<and>
    (\<forall>x\<in>set unsafe. \<not> search x (nfkc (lower text))) \<and>
    age_ps = apre @ q # apost \<and> (\<forall>x\<in>set apre. \<not> search x (nfkc (lower text))) \<and>
    search q (nfkc (lower text)) \<longrightarrow>
      check_content_safety_with keywords unsafe age_ps nfkc text =
        \<lparr>is_valid = False, vr_message = ''Content not suitable for target age group'',
         vr_details = Some [(''pattern'', pattern q)]\<rparr>)"
proof (intro conjI impI)
  show "is_valid (check_content_safety_with keywords unsafe age_ps nfkc text) \<longleftrightarrow>
      (\<forall>k\<in>set keywords. \<not> str_contains k (nfkc (lower text))) \<and>
      (\<forall>p\<in>set unsafe. \<not> search p (nfkc (lower text))) \<and>
      (\<forall>p\<in>set age_ps. \<not> search p (nfkc (lower text)))"
    by (auto simp: is_valid_iff_no_find find_None_iff)
next
  assume "keywords = kpre @ k # kpost \<and> (\<forall>x\<in>set kpre. \<not> str_contains x (nfkc (lower text))) \<and>
    str_contains k (nfkc (lower text))"
  then have "find (\<lambda>x. str_contains x (nfkc (lower text))) keywords = Some k"
    by (simp add: find_first)
  then show "check_content_safety_with keywords unsafe age_ps nfkc text =
        \<lparr>is_valid = False, vr_message = ''Content contains inappropriate keywords'',
         vr_details = Some [(''keyword'', k)]\<rparr>"
    by (simp add: check_content_safety_with_def normalize_text_def)
next
  assume a: "(\<forall>x\<in>set keywords. \<not> str_contains x (nfkc (lower text))) \<and>
    unsafe = upre @ p # upost \<and> (\<forall>x\<in>set upre. \<not> search x (nfkc (lower text))) \<and>
    search p (nfkc (lower text))"
  then have "find (\<lambda>x. str_contains x (nfkc (lower text))) keywords = None"
    by (simp add: find_None_iff)
  moreover from a have "find (\<lambda>x. search x (nfkc (lower text))) unsafe = Some p"
    by (simp add: find_first)
  ultimately show "check_content_safety_with keywords unsafe age_ps nfkc text =
        \<lparr>is_valid = False, vr_message = ''Content contains unsafe patterns'',
         vr_details = Some [(''pattern'', pattern p)]\<rparr>"
    by (simp add: check_content_safety_with_def normalize_text_def)
next
  assume a: "(\<forall>x\<in>set keywords. \<not> str_contains x (nfkc (lower text))) \<and>
    (\<forall>x\<in>set unsafe. \<not> search x (nfkc (lower text))) \<and>
    age_ps = apre @ q # apost \<and> (\<forall>x\<in>set apre. \<not> search x (nfkc (lower text))) \<and>
    search q (nfkc (lower text))"
  then have "find (\<lambda>x. str_contains x (nfkc (lower text))) keywords = None"
    by (simp add: find_None_iff)
  moreover from a have "find (\<lambda>x. search x (nfkc (lower text))) unsafe = None"
    by (simp add: find_None_iff)
  moreover from a have "find (\<lambda>x. search x (nfkc (lower text))) age_ps = Some q"
    by (simp add: find_first)
  ultimately show "check_content_safety_with keywords unsafe age_ps nfkc text =
        \<lparr>is_valid = False, vr_message = ''Content not suitable for target age group'',
         vr_details = Some [(''pattern'', pattern q)]\<rparr>"
    by (simp add: check_content_safety_with_def normalize_text_def)
qed

theorem content_safety_ordered_first_match_witness:
  "check_content_safety (\<lambda>s. s) ''A scary WEAPON'' =
     \<lparr>is_valid = False, vr_message = ''Content contains unsafe patterns'',
      vr_details = Some [(''pattern'', ''(?i)(violence|weapon|drug)'')]\<rparr> \<and>
   check_content_safety (\<lambda>s. s) ''a Horror story'' =
     \<lparr>is_valid = False, vr_message = ''Content not suitable for target age group'',
      vr_details = Some [(''pattern'', ''(?i)(fear|horror|scary)'')]\<rparr> \<and>
   is_valid (check_content_safety (\<lambda>s. s) ''A friendly dragon reading books'') \<and>
   check_content_safety_with [''gore'', ''weapon''] UNSAFE_PATTERNS AGE_INAPPROPRIATE_CONTENT
       (\<lambda>s. s) ''My WEAPON of choice'' =
     \<lparr>is_valid = False, vr_message = ''Content contains inappropriate keywords'',
      vr_details = Some [(''keyword'', ''weapon'')]\<rparr>"
proof -
  let ?p1 = "\<lparr>pattern = ''(?i)(violence|weapon|drug)'',
              alternatives = [''violence'', ''weapon'', ''drug'']\<rparr>"
  let ?p2 = "\<lparr>pattern = ''(?i)(explicit|mature|adult)'',
              alternatives = [''explicit'', ''mature'', ''adult'']\<rparr>"
  let ?q1 = "\<lparr>pattern = ''(?i)(fear|horror|scary)'',
              alternatives = [''fear'', ''horror'', ''scary'']\<rparr>"
  let ?q2 = "\<lparr>pattern = ''(?i)(complex|advanced|difficult)'',
              alternatives = [''complex'', ''advanced'', ''difficult'']\<rparr>"
  have U: "UNSAFE_PATTERNS = [] @ ?p1 # [?p2]" by (simp add: UNSAFE_PATTERNS_def)
  have A: "AGE_INAPPROPRIATE_CONTENT = [] @ ?q1 # [?q2]"
    by (simp add: AGE_INAPPROPRIATE_CONTENT_def)
  have K: "[''gore'', ''weapon''] = [''gore''] @ ''weapon'' # []" by simp
  have h1: "search ?p1 (lower ''A scary WEAPON'')" by code_simp
  have h2: "\<forall>x\<in>set UNSAFE_PATTERNS. \<not> search x (lower ''a Horror story'')" by code_simp
  have h3: "search ?q1 (lower ''a Horror story'')" by code_simp
  have h4: "\<forall>x\<in>set UNSAFE_PATTERNS. \<not> search x (lower ''A friendly dragon reading books'')"
    by code_simp
  have h5: "\<forall>x\<in>set AGE_INAPPROPRIATE_CONTENT. \<not> search x (lower ''A friendly dragon reading books'')"
    by code_simp
  have h6: "\<not> str_contains ''gore'' (lower ''My WEAPON of choice'')" by code_simp
  have h7: "str_contains ''weapon'' (lower ''My WEAPON of choice'')" by code_simp
  note T = content_safety_ordered_first_match
  show ?thesis
    using U A K h1 h2 h3 h4 h5 h6 h7
      T [of NSFW_KEYWORDS UNSAFE_PATTERNS AGE_INAPPROPRIATE_CONTENT "\<lambda>s. s" "''A scary WEAPON''"
           "[]" "''x''" "[]" "[]" ?p1 "[?p2]" "[]" ?q1 "[?q2]"]
      T [of NSFW_KEYWORDS UNSAFE_PATTERNS AGE_INAPPROPRIATE_CONTENT "\<lambda>s. s" "''a Horror story''"
           "[]" "''x''" "[]" "[]" ?p1 "[?p2]" "[]" ?q1 "[?q2]"]
      T [of NSFW_KEYWORDS UNSAFE_PATTERNS AGE_INAPPROPRIATE_CONTENT "\<lambda>s. s"
           "''A friendly dragon reading books''"
           "[]" "''x''" "[]" "[]" ?p1 "[?p2]" "[]" ?q1 "[?q2]"]
      T [of "[''gore'', ''weapon'']" UNSAFE_PATTERNS AGE_INAPPROPRIATE_CONTENT "\<lambda>s. s"
           "''My WEAPON of choice''"
           "[''gore'']" "''weapon''" "[]" "[]" ?p1 "[?p2]" "[]" ?q1 "[?q2]"]
    by (simp add: check_content_safety_def NSFW_KEYWORDS_def)
qed

section \<open>Properties of the story request\<close>

lemma set_fromkeys: "set (fromkeys keys xs) = set keys \<union> set xs"
  by (induction xs arbitrary: keys) auto

lemma distinct_fromkeys: "distinct keys \<Longrightarrow> distinct (fromkeys keys xs)"
  by (induction xs arbitrary: keys) auto

lemma fromkeys_snoc:
  "fromkeys keys (xs @ [x]) =
     (if x \<in> set keys \<union> set xs then fromkeys keys xs else fromkeys keys xs @ [x])"
  by (induction xs arbitrary: keys) (auto simp: set_fromkeys)

lemma first_index_less: "a \<in> set xs \<Longrightarrow> first_index xs a < length xs"
  by (induction xs) auto

lemma first_index_append_mem: "a \<in> set xs \<Longrightarrow> first_index (xs @ ys) a = first_index xs a"
  by (induction xs) auto

lemma first_index_append_new:
  "a \<notin> set xs \<Longrightarrow> first_index (xs @ ys) a = length xs + first_index ys a"
  by (induction xs) auto

lemma dict_fromkeys_first_seen:
  "sorted_wrt (\<lambda>a b. first_index xs a < first_index xs b) (dict_fromkeys xs)"
proof (induction xs rule: rev_induct)
  case Nil
  show ?case by (simp add: dict_fromkeys_def)
next
  case (snoc x xs)
  have keep: "sorted_wrt (\<lambda>a b. first_index (xs @ [x]) a < first_index (xs @ [x]) b)
                (dict_fromkeys xs)"
  proof (rule sorted_wrt_mono_rel [OF _ snoc.IH])
    fix a b
    assume "a \<in> set (dict_fromkeys xs)" "b \<in> set (dict_fromkeys xs)"
      and "first_index xs a < first_index xs b"
    then show "first_index (xs @ [x]) a < first_index (xs @ [x]) b"
      by (simp add: dict_fromkeys_def set_fromkeys first_index_append_mem)
  qed
  show ?case
  proof (cases "x \<in> set xs")
    case True
    with keep show ?thesis by (simp add: dict_fromkeys_def fromkeys_snoc)
  next
    case False
    have "\<forall>a\<in>set (dict_fromkeys xs). first_index (xs @ [x]) a < first_index (xs @ [x]) x"
      using False
      by (simp add: dict_fromkeys_def set_fromkeys first_index_append_mem
          first_index_append_new first_index_less)
    with keep False show ?thesis
      by (simp add: dict_fromkeys_def fromkeys_snoc sorted_wrt_append)
  qed
qed

lemma dict_fromkeys_no_duplicates: "distinct (dict_fromkeys xs)"
  by (simp add: dict_fromkeys_def distinct_fromkeys)

lemma set_dict_fromkeys: "set (dict_fromkeys xs) = set xs"
  by (simp add: dict_fromkeys_def set_fromkeys)

lemma dict_fromkeys_distinct: "distinct xs \<Longrightarrow> dict_fromkeys xs = xs"
  by (induction xs rule: rev_induct) (simp_all add: dict_fromkeys_def fromkeys_snoc)

lemma NAME_PATTERN_does_not_compile: "NAME_PATTERN = Inl (BadEscape (CHR ''p'') 2)"
  by code_simp

lemma INTEREST_PATTERN_does_not_compile: "INTEREST_PATTERN = Inl (BadEscape (CHR ''p'') 2)"
  by code_simp

lemma import_story_request_raises: "import_story_request = Inl (BadEscape (CHR ''p'') 2)"
  by (simp add: import_story_request_def NAME_PATTERN_does_not_compile)

text \<open>
  C4. The line that removes duplicates is not reached. Importing the module raises
  \<open>re.error\<close> (bad escape \<open>\p\<close> at position 2) when \<open>NAME_PATTERN\<close> is compiled, so
  constructing the request with the interests space, space, art yields that error,
  whatever the engine and the normalisation are, and no object with the interests
  space, art. (Had it been reached, \<open>list(dict.fromkeys(...))\<close> would keep the first
  occurrences in their order: \<open>dict_fromkeys_first_seen\<close>.)
\<close>

theorem duplicate_interests_construction_raises_re_error:
  "StoryRequest re_match nfkc ''Mia'' 8 ''Adventure'' [''space'', ''space'', ''art''] None =
     Inl (ReError (BadEscape (CHR ''p'') 2))"
  by (simp add: StoryRequest_def import_story_request_raises)

text \<open>
  C7. With the age 2 and the other fields valid, constructing the request does not
  raise the \<open>AIServiceError\<close> of the age check: the import of the module has already
  raised \<open>re.error\<close> (bad escape \<open>\p\<close> at position 2), whatever the engine and the
  normalisation are.
\<close>

theorem age_below_range_construction_raises_re_error:
  "StoryRequest re_match nfkc ''Mia'' 2 ''Adventure'' [''space''] None =
     Inl (ReError (BadEscape (CHR ''p'') 2))"
  by (simp add: StoryRequest_def import_story_request_raises)

text \<open>
  C9. No field combination constructs: for every name, age, theme, list of interests
  and notes, and whatever the engine and the normalisation are, the result is the
  \<open>re.error\<close> of the import (bad escape \<open>\p\<close> at position 2); in particular for the
  valid request Mia, 8, Adventure, space and dinosaurs, so there is no object whose
  \<open>to_dict\<close> could be read.
\<close>

theorem valid_request_construction_raises_re_error:
  "StoryRequest re_match nfkc cn a t is notes = Inl (ReError (BadEscape (CHR ''p'') 2)) \<and>
   StoryRequest re_match nfkc ''Mia'' 8 ''Adventure'' [''space'', ''dinosaurs''] None =
     Inl (ReError (BadEscape (CHR ''p'') 2))"
  by (simp add: StoryRequest_def import_story_request_raises)

section \<open>Properties of the illustration request\<close>

lemma aspect_ratio_lower:
  assumes "256 \<le> h"
  shows "(1 / 2 \<le> (of_int w / of_int h :: rat)) \<longleftrightarrow> h \<le> 2 * w"
proof -
  from assms have pos: "(0::rat) < of_int h" by simp
  have "(1 / 2 \<le> (of_int w / of_int h :: rat)) \<longleftrightarrow> (of_int h :: rat) \<le> 2 * of_int w"
    using pos by (simp add: field_simps)
  also have "\<dots> \<longleftrightarrow> (of_int h :: rat) \<le> of_int (2 * w)" by simp
  also have "\<dots> \<longleftrightarrow> h \<le> 2 * w" by (simp only: of_int_le_iff)
  finally show ?thesis .
qed

lemma aspect_ratio_upper:
  assumes "256 \<le> h"
  shows "((of_int w / of_int h :: rat) \<le> 2) \<longleftrightarrow> w \<le> 2 * h"
proof -
  from assms have pos: "(0::rat) < of_int h" by simp
  have "((of_int w / of_int h :: rat) \<le> 2) \<longleftrightarrow> (of_int w :: rat) \<le> 2 * of_int h"
    using pos by (simp add: field_simps)
  also have "\<dots> \<longleftrightarrow> (of_int w :: rat) \<le> of_int (2 * h)" by simp
  also have "\<dots> \<longleftrightarrow> w \<le> 2 * h" by (simp only: of_int_le_iff)
  finally show ?thesis .
qed

lemma aspect_ratio_in_range:
  assumes "256 \<le> w" and "256 \<le> h"
  shows "(1 / 2 \<le> (of_int w / of_int h :: rat) \<and> (of_int w / of_int h :: rat) \<le> 2) \<longleftrightarrow>
         (h \<le> 2 * w \<and> w \<le> 2 * h)"
  by (simp only: aspect_ratio_lower [OF assms(2)] aspect_ratio_upper [OF assms(2)])

lemma validate_image_dimensions_cases:
  "validate_image_dimensions (w, h) =
     (if \<not> (256 \<le> w \<and> w \<le> 1024 \<and> 256 \<le> h \<and> h \<le> 1024) then
        Inl (AIServiceError
          \<lparr>message = ''Image dimensions must be between 256 and 1024 pixels'',
           details = [(''width'', DInt w), (''height'', DInt h)],
           request_id = ''validation_error''\<rparr>)
      else if \<not> (h \<le> 2 * w \<and> w \<le> 2 * h) then
        Inl (AIServiceError
          \<lparr>message = ''Image aspect ratio must be between 1:2 and 2:1'',
           details = [(''aspect_ratio'', DRat (of_int w / of_int h))],
           request_id = ''validation_error''\<rparr>)
      else Inr (w, h))"
proof (cases "256 \<le> w \<and> w \<le> 1024 \<and> 256 \<le> h \<and> h \<le> 1024")
  case False
  then show ?thesis
    by (simp add: validate_image_dimensions_def MIN_IMAGE_DIMENSION_def MAX_IMAGE_DIMENSION_def)
next
  case True
  then have h: "256 \<le> h" by simp
  from True aspect_ratio_lower [OF h, of w] aspect_ratio_upper [OF h, of w] show ?thesis
    by (simp add: validate_image_dimensions_def MIN_IMAGE_DIMENSION_def MAX_IMAGE_DIMENSION_def
        Let_def)
qed

lemma validate_size_cases:
  "validate_size (w, h) =
     (if \<not> (256 \<le> w \<and> w \<le> 1024 \<and> 256 \<le> h \<and> h \<le> 1024) then
        Inl (AIServiceError
          \<lparr>message = ''Image dimensions must be between 256 and 1024 pixels'',
           details = [(''width'', DInt w), (''height'', DInt h)],
           request_id = ''validation_error''\<rparr>)
      else if \<not> (h \<le> 2 * w \<and> w \<le> 2 * h) then
        Inl (AIServiceError
          \<lparr>message = ''Image aspect ratio must be between 1:2 and 2:1'',
           details = [(''aspect_ratio'', DRat (of_int w / of_int h))],
           request_id = ''validation_error''\<rparr>)
      else if w mod 8 \<noteq> 0 \<or> h mod 8 \<noteq> 0 then
        Inl (AIServiceError
          \<lparr>message = ''Image dimensions must be multiples of 8'',
           details = [(''width'', DInt w), (''height'', DInt h)],
           request_id = ''validation_error''\<rparr>)
      else Inr (w, h))"
  by (simp add: validate_size_def validate_image_dimensions_cases)

lemma validate_string_length_failure:
  "validate_string_length v lo hi = Inl f \<Longrightarrow> \<exists>e. f = AIServiceError e"
  by (auto simp: validate_string_length_def split: if_splits)

lemma prompt_field_failure: "prompt_field v = Inl f \<Longrightarrow> \<exists>e. f = AIServiceError e"
  by (auto simp: prompt_field_def validate_prompt_def split: if_splits sum.splits
      dest: validate_string_length_failure)

lemma lower_styles: "map lower SUPPORTED_STYLES = SUPPORTED_STYLES"
  by code_simp

lemma find_style:
  assumes "s \<in> set SUPPORTED_STYLES"
  shows "find (\<lambda>x. lower x = lower s) SUPPORTED_STYLES = Some s"
proof -
  have f1: "find (\<lambda>x. lower x = lower ''children's book'') SUPPORTED_STYLES = Some ''children's book''"
    by code_simp
  have f2: "find (\<lambda>x. lower x = lower ''watercolor'') SUPPORTED_STYLES = Some ''watercolor''"
    by code_simp
  have f3: "find (\<lambda>x. lower x = lower ''digital art'') SUPPORTED_STYLES = Some ''digital art''"
    by code_simp
  have f4: "find (\<lambda>x. lower x = lower ''cartoon'') SUPPORTED_STYLES = Some ''cartoon''"
    by code_simp
  have f5: "find (\<lambda>x. lower x = lower ''realistic'') SUPPORTED_STYLES = Some ''realistic''"
    by code_simp
  from assms have "s = ''children's book'' \<or> s = ''watercolor'' \<or> s = ''digital art'' \<or>
                   s = ''cartoon'' \<or> s = ''realistic''"
    by (simp add: SUPPORTED_STYLES_def)
  then show ?thesis
    by (elim disjE) (simp_all only: f1 f2 f3 f4 f5)
qed

lemma validate_style_matching:
  assumes "s \<in> set SUPPORTED_STYLES" and "lower s = lower v"
  shows "validate_style v = Inr s"
proof -
  from assms(1) have "s \<noteq> []" by (auto simp: SUPPORTED_STYLES_def)
  with assms(2) have "v \<noteq> []" by (auto simp: lower_def)
  moreover have "lower s \<in> lower ` set SUPPORTED_STYLES" using assms(1) by (rule imageI)
  with assms(2) have "lower v \<in> set (map lower SUPPORTED_STYLES)" by simp
  moreover from find_style [OF assms(1)] assms(2)
  have "find (\<lambda>x. lower x = lower v) SUPPORTED_STYLES = Some s" by simp
  ultimately show ?thesis by (simp add: validate_style_def)
qed

lemma validate_style_Inr:
  assumes "validate_style v = Inr s"
  shows "s \<in> set SUPPORTED_STYLES \<and> lower s = lower v"
proof -
  from assms have "find (\<lambda>x. lower x = lower v) SUPPORTED_STYLES = Some s"
    by (auto simp: validate_style_def split: if_splits option.splits)
  from find_Some_holds [OF this] show ?thesis by simp
qed

lemma validate_style_failure: "validate_style v = Inl f \<Longrightarrow> \<exists>e. f = AIServiceError e"
proof (cases "v = [] \<or> lower v \<notin> set (map lower SUPPORTED_STYLES)")
  case True
  assume "validate_style v = Inl f"
  with True show ?thesis by (auto simp: validate_style_def)
next
  case False
  then obtain s where "s \<in> set SUPPORTED_STYLES" "lower s = lower v" by auto
  then have "validate_style v = Inr s" by (rule validate_style_matching)
  moreover assume "validate_style v = Inl f"
  ultimately show ?thesis by simp
qed

text \<open>
  C5. A size whose width or height is not a multiple of 8, or whose ratio of width to
  height is below 0.5 or above 2, is rejected with an \<open>AIServiceError\<close> by
  \<open>validate_size\<close>, and so is the construction of a request with that size. The range
  check comes first: a size with a dimension outside 256 to 1024 gets the error of the
  range check whatever else holds of it; within the range a bad ratio gets the error of
  the ratio check; and only a size that passed both can get the multiple-of-8 error.
\<close>

theorem bad_size_rejected_range_check_first:
  "(w mod 8 \<noteq> 0 \<or> h mod 8 \<noteq> 0 \<or>
    (of_int w / of_int h :: rat) < 1 / 2 \<or> 2 < (of_int w / of_int h :: rat) \<longrightarrow>
      (\<exists>e. validate_size (w, h) = Inl (AIServiceError e)) \<and>
      (\<exists>e. IllustrationRequest p st (Some (w, h)) ef = Inl (AIServiceError e))) \<and>
   (\<not> (256 \<le> w \<and> w \<le> 1024 \<and> 256 \<le> h \<and> h \<le> 1024) \<longrightarrow>
      validate_size (w, h) =
        Inl (AIServiceError
          \<lparr>message = ''Image dimensions must be between 256 and 1024 pixels'',
           details = [(''width'', DInt w), (''height'', DInt h)],
           request_id = ''validation_error''\<rparr>)) \<and>
   (256 \<le> w \<and> w \<le> 1024 \<and> 256 \<le> h \<and> h \<le> 1024 \<and>
    ((of_int w / of_int h :: rat) < 1 / 2 \<or> 2 < (of_int w / of_int h :: rat)) \<longrightarrow>
      validate_size (w, h) =
        Inl (AIServiceError
          \<lparr>message = ''Image aspect ratio must be between 1:2 and 2:1'',
           details = [(''aspect_ratio'', DRat (of_int w / of_int h))],
           request_id = ''validation_error''\<rparr>)) \<and>
   (256 \<le> w \<and> w \<le> 1024 \<and> 256 \<le> h \<and> h \<le> 1024 \<and>
    1 / 2 \<le> (of_int w / of_int h :: rat) \<and> (of_int w / of_int h :: rat) \<le> 2 \<and>
    (w mod 8 \<noteq> 0 \<or> h mod 8 \<noteq> 0) \<longrightarrow>
      validate_size (w, h) =
        Inl (AIServiceError
          \<lparr>message = ''Image dimensions must be multiples of 8'',
           details = [(''width'', DInt w), (''height'', DInt h)],
           request_id = ''validation_error''\<rparr>))"
proof (intro conjI impI)
  assume bad: "w mod 8 \<noteq> 0 \<or> h mod 8 \<noteq> 0 \<or>
    (of_int w / of_int h :: rat) < 1 / 2 \<or> 2 < (of_int w / of_int h :: rat)"
  have "\<not> (256 \<le> w \<and> w \<le> 1024 \<and> 256 \<le> h \<and> h \<le> 1024) \<or> \<not> (h \<le> 2 * w \<and> w \<le> 2 * h) \<or>
        w mod 8 \<noteq> 0 \<or> h mod 8 \<noteq> 0"
  proof (cases "256 \<le> w \<and> 256 \<le> h")
    case True
    then have "(1 / 2 \<le> (of_int w / of_int h :: rat) \<and> (of_int w / of_int h :: rat) \<le> 2) \<longleftrightarrow>
               (h \<le> 2 * w \<and> w \<le> 2 * h)"
      using aspect_ratio_in_range [of w h] by blast
    with bad show ?thesis by (auto simp: not_le)
  next
    case False
    then show ?thesis by auto
  qed
  then show size_fails: "\<exists>e. validate_size (w, h) = Inl (AIServiceError e)"
    by (auto simp: validate_size_cases)
  show "\<exists>e. IllustrationRequest p st (Some (w, h)) ef = Inl (AIServiceError e)"
  proof (cases "prompt_field p")
    case (Inl f)
    with prompt_field_failure [OF Inl] show ?thesis
      by (auto simp: IllustrationRequest_def)
  next
    case pr: (Inr p')
    show ?thesis
    proof (cases "validate_style st")
      case (Inl f)
      with pr validate_style_failure [OF Inl] show ?thesis
        by (auto simp: IllustrationRequest_def)
    next
      case (Inr st')
      with pr size_fails show ?thesis
        by (auto simp: IllustrationRequest_def)
    qed
  qed
next
  assume "\<not> (256 \<le> w \<and> w \<le> 1024 \<and> 256 \<le> h \<and> h \<le> 1024)"
  then show "validate_size (w, h) =
        Inl (AIServiceError
          \<lparr>message = ''Image dimensions must be between 256 and 1024 pixels'',
           details = [(''width'', DInt w), (''height'', DInt h)],
           request_id = ''validation_error''\<rparr>)"
    by (simp add: validate_size_cases)
next
  assume a: "256 \<le> w \<and> w \<le> 1024 \<and> 256 \<le> h \<and> h \<le> 1024 \<and>
    ((of_int w / of_int h :: rat) < 1 / 2 \<or> 2 < (of_int w / of_int h :: rat))"
  then have "(1 / 2 \<le> (of_int w / of_int h :: rat) \<and> (of_int w / of_int h :: rat) \<le> 2) \<longleftrightarrow>
               (h \<le> 2 * w \<and> w \<le> 2 * h)"
    using aspect_ratio_in_range [of w h] by blast
  with a have "\<not> (h \<le> 2 * w \<and> w \<le> 2 * h)" by (auto simp: not_le)
  with a show "validate_size (w, h) =
        Inl (AIServiceError
          \<lparr>message = ''Image aspect ratio must be between 1:2 and 2:1'',
           details = [(''aspect_ratio'', DRat (of_int w / of_int h))],
           request_id = ''validation_error''\<rparr>)"
    by (simp add: validate_size_cases)
next
  assume a: "256 \<le> w \<and> w \<le> 1024 \<and> 256 \<le> h \<and> h \<le> 1024 \<and>
    1 / 2 \<le> (of_int w / of_int h :: rat) \<and> (of_int w / of_int h :: rat) \<le> 2 \<and>
    (w mod 8 \<noteq> 0 \<or> h mod 8 \<noteq> 0)"
  then have "(1 / 2 \<le> (of_int w / of_int h :: rat) \<and> (of_int w / of_int h :: rat) \<le> 2) \<longleftrightarrow>
               (h \<le> 2 * w \<and> w \<le> 2 * h)"
    using aspect_ratio_in_range [of w h] by blast
  with a have "h \<le> 2 * w \<and> w \<le> 2 * h" by simp
  with a show "validate_size (w, h) =
        Inl (AIServiceError
          \<lparr>message = ''Image dimensions must be multiples of 8'',
           details = [(''width'', DInt w), (''height'', DInt h)],
           request_id = ''validation_error''\<rparr>)"
    by (simp add: validate_size_cases)
qed

theorem bad_size_rejected_range_check_first_witness:
  "(\<exists>e. IllustrationRequest ''A friendly dragon reading books'' ''Children's Book''
          (Some (260, 300)) None = Inl (AIServiceError e)) \<and>
   validate_size (100, 100) =
     Inl (AIServiceError
       \<lparr>message = ''Image dimensions must be between 256 and 1024 pixels'',
        details = [(''width'', DInt 100), (''height'', DInt 100)],
        request_id = ''validation_error''\<rparr>) \<and>
   validate_size (256, 1024) =
     Inl (AIServiceError
       \<lparr>message = ''Image aspect ratio must be between 1:2 and 2:1'',
        details = [(''aspect_ratio'', DRat (1 / 4))],
        request_id = ''validation_error''\<rparr>) \<and>
   validate_size (260, 300) =
     Inl (AIServiceError
       \<lparr>message = ''Image dimensions must be multiples of 8'',
        details = [(''width'', DInt 260), (''height'', DInt 300)],
        request_id = ''validation_error''\<rparr>)"
proof -
  note T1 = bad_size_rejected_range_check_first
    [of 260 300 "''A friendly dragon reading books''" "''Children's Book''" None]
  note T2 = bad_size_rejected_range_check_first [of 100 100 "[]" "[]" None]
  note T3 = bad_size_rejected_range_check_first [of 256 1024 "[]" "[]" None]
  from T1 [THEN conjunct1]
  have 1: "\<exists>e. IllustrationRequest ''A friendly dragon reading books'' ''Children's Book''
          (Some (260, 300)) None = Inl (AIServiceError e)"
    by simp
  from T2 [THEN conjunct2, THEN conjunct1]
  have 2: "validate_size (100, 100) =
     Inl (AIServiceError
       \<lparr>message = ''Image dimensions must be between 256 and 1024 pixels'',
        details = [(''width'', DInt 100), (''height'', DInt 100)],
        request_id = ''validation_error''\<rparr>)"
    by simp
  from T3 [THEN conjunct2, THEN conjunct2, THEN conjunct1]
  have 3: "validate_size (256, 1024) =
     Inl (AIServiceError
       \<lparr>message = ''Image aspect ratio must be between 1:2 and 2:1'',
        details = [(''aspect_ratio'', DRat (1 / 4))],
        request_id = ''validation_error''\<rparr>)"
    by simp
  from T1 [THEN conjunct2, THEN conjunct2, THEN conjunct2]
  have 4: "validate_size (260, 300) =
     Inl (AIServiceError
       \<lparr>message = ''Image dimensions must be multiples of 8'',
        details = [(''width'', DInt 260), (''height'', DInt 300)],
        request_id = ''validation_error''\<rparr>)"
    by simp
  from 1 2 3 4 show ?thesis by simp
qed

text \<open>
  C6. A style that equals one of the five entries of \<open>SUPPORTED_STYLES\<close> once both are
  lower-cased is accepted, and the validator returns that entry, in the casing of the
  list; this is the style a constructed request stores. A style that equals no entry
  in this way is rejected with an \<open>AIServiceError\<close>, and no request is constructed.
\<close>

theorem style_matched_case_insensitively:
  "(s \<in> set SUPPORTED_STYLES \<and> lower s = lower v \<longrightarrow> validate_style v = Inr s) \<and>
   ((\<forall>s\<in>set SUPPORTED_STYLES. lower s \<noteq> lower v) \<longrightarrow>
      validate_style v =
        Inl (AIServiceError
          \<lparr>message = ''Invalid illustration style'',
           details = [(''provided_style'', DStr v), (''supported_styles'', DStrs SUPPORTED_STYLES)],
           request_id = ''validation_error''\<rparr>) \<and>
      (\<exists>e. IllustrationRequest p v sz ef = Inl e)) \<and>
   (IllustrationRequest p v sz ef = Inr r \<longrightarrow>
      style r \<in> set SUPPORTED_STYLES \<and> lower (style r) = lower v) \<and>
   length SUPPORTED_STYLES = 5 \<and>
   validate_style ''Children's Book'' = Inr ''children's book''"
proof (intro conjI impI)
  assume "s \<in> set SUPPORTED_STYLES \<and> lower s = lower v"
  then show "validate_style v = Inr s" by (simp add: validate_style_matching)
next
  assume none: "\<forall>s\<in>set SUPPORTED_STYLES. lower s \<noteq> lower v"
  then have "lower v \<notin> set (map lower SUPPORTED_STYLES)" by auto
  then show rej: "validate_style v =
        Inl (AIServiceError
          \<lparr>message = ''Invalid illustration style'',
           details = [(''provided_style'', DStr v), (''supported_styles'', DStrs SUPPORTED_STYLES)],
           request_id = ''validation_error''\<rparr>)"
    by (simp add: validate_style_def)
  show "\<exists>e. IllustrationRequest p v sz ef = Inl e"
    using rej by (cases "prompt_field p") (simp_all add: IllustrationRequest_def)
next
  assume built: "IllustrationRequest p v sz ef = Inr r"
  then have "validate_style v = Inr (style r)"
    by (auto simp: IllustrationRequest_def split: sum.splits option.splits)
  from validate_style_Inr [OF this]
  show "style r \<in> set SUPPORTED_STYLES" and "lower (style r) = lower v" by simp_all
next
  show "length SUPPORTED_STYLES = 5" by (simp add: SUPPORTED_STYLES_def)
  have "''children's book'' \<in> set SUPPORTED_STYLES" by (simp add: SUPPORTED_STYLES_def)
  moreover have "lower ''children's book'' = lower ''Children's Book''" by code_simp
  ultimately show "validate_style ''Children's Book'' = Inr ''children's book''"
    by (rule validate_style_matching)
qed

theorem style_matched_case_insensitively_witness:
  "validate_style ''WaterColor'' = Inr ''watercolor'' \<and>
   validate_style ''oil painting'' =
     Inl (AIServiceError
       \<lparr>message = ''Invalid illustration style'',
        details = [(''provided_style'', DStr ''oil painting''),
                   (''supported_styles'', DStrs SUPPORTED_STYLES)],
        request_id = ''validation_error''\<rparr>)"
proof -
  have h1: "''watercolor'' \<in> set SUPPORTED_STYLES \<and> lower ''watercolor'' = lower ''WaterColor''"
    by code_simp
  have h2: "\<forall>s\<in>set SUPPORTED_STYLES. lower s \<noteq> lower ''oil painting''"
    by code_simp
  note T1 = style_matched_case_insensitively
    [of "''watercolor''" "''WaterColor''" "[]" None None
        "\<lparr>prompt = [], style = [], size = (0, 0), enhance_faces = True\<rparr>"]
  note T2 = style_matched_case_insensitively
    [of "''watercolor''" "''oil painting''" "[]" None None
        "\<lparr>prompt = [], style = [], size = (0, 0), enhance_faces = True\<rparr>"]
  from T1 [THEN conjunct1] h1 have 1: "validate_style ''WaterColor'' = Inr ''watercolor''"
    by blast
  from T2 [THEN conjunct2, THEN conjunct1] h2
  have 2: "validate_style ''oil painting'' =
     Inl (AIServiceError
       \<lparr>message = ''Invalid illustration style'',
        details = [(''provided_style'', DStr ''oil painting''),
                   (''supported_styles'', DStrs SUPPORTED_STYLES)],
        request_id = ''validation_error''\<rparr>)"
    by blast
  from 1 2 show ?thesis by simp
qed

end
